theory Spec2Isabelle
  imports Complex_Main
begin

section \<open>Numbers and vectors\<close>

text \<open>
  The program computes with JavaScript numbers.  They are modelled as mathematical reals:
  every statement below is about the exact arithmetic of the formulas the code writes
  down, not about IEEE rounding.  \<open>THREE.Vector3\<close> is a triple of such numbers; only
  the operations the modelled code calls are defined, under the library's names
  (prefixed with \<open>v\<close> where the name is taken in HOL).
\<close>

datatype vec3 = Vector3 (vx: real) (vy: real) (vz: real)

fun vadd :: "vec3 \<Rightarrow> vec3 \<Rightarrow> vec3" where
  "vadd (Vector3 a b c) (Vector3 d e f) = Vector3 (a + d) (b + e) (c + f)"

fun vsub :: "vec3 \<Rightarrow> vec3 \<Rightarrow> vec3" where
  "vsub (Vector3 a b c) (Vector3 d e f) = Vector3 (a - d) (b - e) (c - f)"

fun multiplyScalar :: "vec3 \<Rightarrow> real \<Rightarrow> vec3" where
  "multiplyScalar (Vector3 a b c) s = Vector3 (a * s) (b * s) (c * s)"

fun vdot :: "vec3 \<Rightarrow> vec3 \<Rightarrow> real" where
  "vdot (Vector3 a b c) (Vector3 d e f) = a * d + b * e + c * f"

definition vlength :: "vec3 \<Rightarrow> real" where
  "vlength v = sqrt (vdot v v)"

text \<open>\<open>Math.sign\<close>: 1, -1 or 0.\<close>

definition math_sign :: "real \<Rightarrow> real" where
  "math_sign d = (if d > 0 then 1 else if d < 0 then - 1 else 0)"

section \<open>Track segments\<close>

text \<open>
  \<open>SegmentData\<close> of \<open>TrackGenerator.ts\<close>.  The decoration's symbol is an entry of the
  constant \<open>EMOJI_POOL\<close>, whose element type is left open (\<open>'c\<close>), or \<open>undefined\<close>
  (\<open>None\<close>); the Euler angles of \<open>rotation\<close> are a triple.
\<close>

record 'c GroundEmoji =
  char :: "'c option"
  offset :: real
  emojiSize :: real
  emojiRotation :: real

datatype Euler = Euler (ex: real) (ey: real) (ez: real)

record 'c SegmentData =
  index :: nat
  position :: vec3
  rotation :: Euler
  width :: real
  groundEmoji :: "'c GroundEmoji option"
  normal :: vec3
  tangent :: vec3
  theme :: string

section \<open>The collision resolver (\<open>resolveTrackCollision\<close>, TrackSystem.tsx)\<close>

datatype Side = SideLeft | SideRight | SideNone

record CollisionResult =
  didCollide :: bool
  correctedPosition :: vec3
  correctedVelocity :: vec3
  side :: Side

text \<open>The signed lateral offset of a position from the segment's centreline.\<close>

definition distFromCenter :: "vec3 \<Rightarrow> 'c SegmentData \<Rightarrow> real" where
  "distFromCenter pos segment = vdot (vsub pos (position segment)) (normal segment)"

definition trackLimit :: "'c SegmentData \<Rightarrow> real \<Rightarrow> real" where
  "trackLimit segment carWidth = width segment / 2 - carWidth / 2"

definition safetyBuffer :: real where
  "safetyBuffer = 0.05"

text \<open>
  Part B of the function: the velocity after a contact with the wall whose inward normal
  is \<open>wallNormal\<close>.
\<close>

definition resolveVelocity :: "vec3 \<Rightarrow> vec3 \<Rightarrow> vec3" where
  "resolveVelocity velocity wallNormal =
     (let vDotN = vdot velocity wallNormal in
      if vDotN < 0 then
        (let vNormal = multiplyScalar wallNormal vDotN;
             vTangent = vsub velocity vNormal;
             restitution = 0.1;
             maxBounceSpeed = 0.5;
             bounceSpeed = min (- vDotN * restitution) maxBounceSpeed;
             responseNormal = multiplyScalar wallNormal bounceSpeed;
             wallFriction = 0.90;
             responseTangent = multiplyScalar vTangent wallFriction;
             newVel = vadd responseNormal responseTangent
         in if vdot newVel velocity < 0 then responseTangent else newVel)
      else velocity)"

definition resolveTrackCollision ::
    "vec3 \<Rightarrow> vec3 \<Rightarrow> 'c SegmentData \<Rightarrow> real \<Rightarrow> CollisionResult" where
  "resolveTrackCollision pos velocity segment carWidth =
     (let d = distFromCenter pos segment;
          limit = trackLimit segment carWidth
      in if \<bar>d\<bar> \<le> limit then
           \<lparr> didCollide = False, correctedPosition = pos,
             correctedVelocity = velocity, side = SideNone \<rparr>
         else
           (let sign = math_sign d;
                overlap = \<bar>d\<bar> - limit;
                correctionMagnitude = (overlap + safetyBuffer) * sign;
                correction = multiplyScalar (normal segment) correctionMagnitude;
                newPos = vsub pos correction;
                wallNormal = multiplyScalar (normal segment) (- sign)
            in \<lparr> didCollide = True, correctedPosition = newPos,
                 correctedVelocity = resolveVelocity velocity wallNormal,
                 side = (if sign > 0 then SideRight else SideLeft) \<rparr>))"

section \<open>The track generator (\<open>TrackGenerator.ts\<close>)\<close>

text \<open>More of \<open>THREE.Vector3\<close>.  \<open>normalize\<close> divides by the length, or by 1 when the
  length is 0 (\<open>this.length() || 1\<close>).\<close>

fun crossVectors :: "vec3 \<Rightarrow> vec3 \<Rightarrow> vec3" where
  "crossVectors (Vector3 a b c) (Vector3 d e f) =
     Vector3 (b * f - c * e) (c * d - a * f) (a * e - b * d)"

definition vnormalize :: "vec3 \<Rightarrow> vec3" where
  "vnormalize v = multiplyScalar v (1 / (if vlength v = 0 then 1 else vlength v))"

definition vnegate :: "vec3 \<Rightarrow> vec3" where
  "vnegate v = multiplyScalar v (- 1)"

text \<open>
  The remainder operator \<open>%\<close> of JavaScript: the quotient is truncated towards zero, so
  the result has the sign of the dividend.
\<close>

definition js_rem :: "real \<Rightarrow> real \<Rightarrow> real" where
  "js_rem a b = a - b * of_int (if 0 \<le> a / b then \<lfloor>a / b\<rfloor> else \<lceil>a / b\<rceil>)"

text \<open>
  \<open>SEED_RANDOM\<close> returns a closure over its own variable \<open>s\<close>, which every call of
  the closure reads and writes.  The variables of all closures created so far live in a
  store; \<open>SEED_RANDOM seed\<close> adds a cell to it, initialised from the seed, and returns
  the cell's address, which stands for the closure.  A call of the closure \<open>h\<close> is
  \<open>rng h\<close>: it returns a number and updates the cell.
\<close>

type_synonym store = "real list"

definition SEED_RANDOM :: "real \<Rightarrow> store \<Rightarrow> nat \<times> store" where
  "SEED_RANDOM seed st = (length st, st @ [js_rem seed 2147483647])"

definition rng :: "nat \<Rightarrow> store \<Rightarrow> real \<times> store" where
  "rng h st =
     (let s = js_rem (st ! h * 16807) 2147483647
      in ((s - 1) / 2147483646, st [h := s]))"

definition TOTAL_SEGMENTS :: nat where
  "TOTAL_SEGMENTS = 1200"

text \<open>The centreline point pushed at iteration \<open>i\<close> of the first loop.\<close>

definition trackPoint :: "nat \<Rightarrow> vec3" where
  "trackPoint i =
     (let radiusX = 1200; radiusZ = 800;
          t = (real i / real TOTAL_SEGMENTS) * pi * 2;
          noise = sin (t * 10) * 10;
          x = cos t * (radiusX + noise);
          z = sin t * (radiusZ + noise)
      in Vector3 x 0 z)"

definition trackPoints :: "vec3 list" where
  "trackPoints = map trackPoint [0 ..< Suc TOTAL_SEGMENTS]"

text \<open>
  Reading an array at a computed index gives \<open>undefined\<close> outside the array: the symbol
  of a decoration is an optional pool entry.
\<close>

definition js_index :: "'c list \<Rightarrow> int \<Rightarrow> 'c option" where
  "js_index xs k = (if 0 \<le> k \<and> k < int (length xs) then Some (xs ! nat k) else None)"

text \<open>
  The decoration of segment \<open>i\<close>, drawn from the closure \<open>h\<close>; the second component
  is the store afterwards.  \<open>&&\<close> short-circuits: no number is drawn unless \<open>i\<close> is a
  multiple of 100.  \<open>pool\<close> is the constant \<open>EMOJI_POOL\<close>.
\<close>

definition decoration ::
    "'c list \<Rightarrow> nat \<Rightarrow> nat \<Rightarrow> store \<Rightarrow> 'c GroundEmoji option \<times> store" where
  "decoration pool i h st =
     (if i mod 100 = 0 then
        (let (r0, st0) = rng h st in
         if r0 > 0.4 then
           (let (r1, st1) = rng h st0;
                c = js_index pool \<lfloor>r1 * real (length pool)\<rfloor>;
                w = 50;
                (r2, st2) = rng h st1;
                off = (r2 - 0.5) * (w - 10);
                (r3, st3) = rng h st2;
                (r4, st4) = rng h st3
            in (Some \<lparr> char = c, offset = off, emojiSize = 20 + r3 * 10,
                         emojiRotation = r4 * pi * 2 \<rparr>, st4))
         else (None, st0))
      else (None, st))"

text \<open>
  One iteration of the second loop.  \<open>euler n u t\<close> stands for the Euler angles THREE
  computes from the rotation matrix with basis \<open>n\<close>, \<open>u\<close>, \<open>t\<close> (\<open>makeBasis\<close>, then
  \<open>setFromRotationMatrix\<close>): a function of the library, taken as a parameter.
\<close>

definition makeSegment ::
    "(vec3 \<Rightarrow> vec3 \<Rightarrow> vec3 \<Rightarrow> Euler) \<Rightarrow> 'c list \<Rightarrow> vec3 list \<Rightarrow> nat \<Rightarrow> nat \<Rightarrow> store
      \<Rightarrow> 'c SegmentData \<times> store" where
  "makeSegment euler pool points i h st =
     (let pos = points ! i;
          prev = points ! ((i + TOTAL_SEGMENTS - 1) mod TOTAL_SEGMENTS);
          next = points ! ((i + 1) mod TOTAL_SEGMENTS);
          tang = vnormalize (vsub next prev);
          up = Vector3 0 1 0;
          norm = vnormalize (crossVectors up tang);
          rot = euler norm up (vnegate tang);
          (emoji, st') = decoration pool i h st
      in (\<lparr> index = i, position = pos, rotation = rot, width = 60, groundEmoji = emoji,
            normal = norm, tangent = tang, theme = ''mist'' \<rparr>, st'))"

text \<open>The second loop, over the indices still to do.\<close>

fun buildSegments ::
    "(vec3 \<Rightarrow> vec3 \<Rightarrow> vec3 \<Rightarrow> Euler) \<Rightarrow> 'c list \<Rightarrow> vec3 list \<Rightarrow> nat list \<Rightarrow> nat \<Rightarrow> store
      \<Rightarrow> 'c SegmentData list \<times> store" where
  "buildSegments euler pool points [] h st = ([], st)"
| "buildSegments euler pool points (i # rest) h st =
     (let (seg, st1) = makeSegment euler pool points i h st;
          (segs, st2) = buildSegments euler pool points rest h st1
      in (seg # segs, st2))"

text \<open>
  A call of \<open>generateTrackPath\<close> in a store: the segments it returns (\<open>main\<close>) and the
  store it leaves.
\<close>

definition generateTrackPath ::
    "(vec3 \<Rightarrow> vec3 \<Rightarrow> vec3 \<Rightarrow> Euler) \<Rightarrow> 'c list \<Rightarrow> real \<Rightarrow> store
      \<Rightarrow> 'c SegmentData list \<times> store" where
  "generateTrackPath euler pool seed st =
     (let (h, st0) = SEED_RANDOM seed st
      in buildSegments euler pool trackPoints [0 ..< TOTAL_SEGMENTS] h st0)"

section \<open>The chase camera (\<open>RacingCamera\<close>)\<close>

text \<open>
  The component's refs and the parts of the camera object it writes.  \<open>camera.lookAt p\<close>
  is recorded as the point looked at.
\<close>

record CameraState =
  currentPosition :: vec3
  currentLookAt :: vec3
  isInit :: bool
  cameraPosition :: vec3
  cameraLookAt :: vec3
  cameraFov :: real

text \<open>
  What one frame callback reads: the target group (absent while \<open>targetGroupRef.current\<close>
  is null) with its position and quaternion, the frame's \<open>delta\<close>, the refs of the car,
  and the three numbers \<open>Math.random\<close> returns for the shake.
\<close>

record 'q CameraFrame =
  target :: "(vec3 \<times> 'q) option"
  camDelta :: real
  camSpeed :: real
  camNitro :: bool
  camTrauma :: real
  shake :: "real \<times> real \<times> real"
  isPerspective :: bool

definition vlerp :: "vec3 \<Rightarrow> vec3 \<Rightarrow> real \<Rightarrow> vec3" where
  "vlerp a b alpha = vadd a (multiplyScalar (vsub b a) alpha)"

definition math_lerp :: "real \<Rightarrow> real \<Rightarrow> real \<Rightarrow> real" where
  "math_lerp a b t = (1 - t) * a + t * b"

text \<open>The ideal camera position and look-at point; \<open>applyQ\<close> is \<open>Vector3.applyQuaternion\<close>.\<close>

definition idealOffset :: "(vec3 \<Rightarrow> 'q \<Rightarrow> vec3) \<Rightarrow> vec3 \<Rightarrow> 'q \<Rightarrow> vec3" where
  "idealOffset applyQ carPos carQuat = vadd (applyQ (Vector3 0 4.5 5.5) carQuat) carPos"

definition idealLookAt :: "(vec3 \<Rightarrow> 'q \<Rightarrow> vec3) \<Rightarrow> vec3 \<Rightarrow> 'q \<Rightarrow> vec3" where
  "idealLookAt applyQ carPos carQuat = vadd (applyQ (Vector3 0 3.0 (- 20.0)) carQuat) carPos"

definition cameraFrame ::
    "(vec3 \<Rightarrow> 'q \<Rightarrow> vec3) \<Rightarrow> CameraState \<Rightarrow> 'q CameraFrame \<Rightarrow> CameraState" where
  "cameraFrame applyQ st f =
     (case target f of
        None \<Rightarrow> st
      | Some (carPos, carQuat) \<Rightarrow>
         (let dt = min (camDelta f) 0.1;
              offs = idealOffset applyQ carPos carQuat;
              look = idealLookAt applyQ carPos carQuat
          in if \<not> isInit st then
               st \<lparr> currentPosition := offs, currentLookAt := look,
                    cameraPosition := offs, cameraLookAt := look, isInit := True \<rparr>
             else
               (let posLerpFactor = 30.0 * dt;
                    p1 = vlerp (currentPosition st) offs posLerpFactor;
                    lookLerpFactor = 20.0 * dt;
                    l1 = vlerp (currentLookAt st) look lookLerpFactor;
                    p2 = (if camTrauma f > 0 then
                            (let shakeMag = camTrauma f * 0.25; (r1, r2, r3) = shake f
                             in vadd p1 (Vector3 ((r1 - 0.5) * shakeMag) ((r2 - 0.5) * shakeMag)
                                                 ((r3 - 0.5) * shakeMag)))
                          else p1);
                    fov' = (if isPerspective f then
                              (let baseFOV = 90;
                                   targetFOV = baseFOV + camSpeed f * 0.12
                                                 + (if camNitro f then 10 else 0);
                                   lerpSpeed = (if targetFOV > cameraFov st then dt * 3.0
                                                else dt * 0.3)
                               in math_lerp (cameraFov st) targetFOV lerpSpeed)
                            else cameraFov st)
                in st \<lparr> currentPosition := p2, currentLookAt := l1,
                        cameraPosition := p2, cameraLookAt := l1, cameraFov := fov' \<rparr>)))"

section \<open>The car's frame callback (\<open>Car\<close>, \<open>useFrame\<close>)\<close>

text \<open>
  The callback is modelled on the part of the car's state that the properties below are
  about: speed, nitro, damage, wreck, lap and progress, and wall contact.  Position,
  heading, steering, drift and suspension are geometry; what the modelled part reads from
  them in a frame is the index found by the nearest-segment search and the result of
  \<open>resolveTrackCollision\<close>, and both are inputs of the frame here.  Every statement
  about the modelled state therefore holds for whatever the geometry produces.
\<close>

definition damp :: "real \<Rightarrow> real \<Rightarrow> real \<Rightarrow> real" where
  "damp val tgt step = (let diff = tgt - val in val + diff * min 1 step)"

record Keys =
  keyW :: bool
  keyA :: bool
  keyS :: bool
  keyD :: bool
  keySpace :: bool
  keyShift :: bool

record CarStats =
  statSpeed :: real
  statAccel :: real
  statHandling :: real

record CarProps =
  isPlayer :: bool
  stats :: CarStats
  aggressiveness :: real
  trackLength :: nat

record CarState =
  speed :: real
  nitroAmount :: real
  nitroBuffer :: real
  isNitroEmpty :: bool
  isNitroEnabled :: bool
  currentProgress :: int
  currentLap :: int
  lastProgressIndex :: int
  isDrifting :: bool
  isWallGrinding :: bool
  wallContactSide :: Side
  damage :: real
  trauma :: real
  isWrecked :: bool
  wreckTimer :: real

text \<open>
  One call of the callback: the props and globals it reads (\<open>isPaused\<close>, whether
  \<open>group.current\<close> is set, \<open>delta\<close>, \<open>canMove\<close>, the keyboard state and the optional
  \<open>virtualKeys\<close>) and the two results of the geometry.
\<close>

record CarFrame =
  isPaused :: bool
  mounted :: bool
  delta :: real
  canMove :: bool
  keys :: Keys
  virtualKeys :: "Keys option"
  bestIdx :: int
  collision :: CollisionResult

text \<open>The refs as \<open>useRef\<close> initialises them.\<close>

definition initialCarState :: "int \<Rightarrow> CarState" where
  "initialCarState startOffset =
     \<lparr> speed = 0, nitroAmount = 150, nitroBuffer = 0, isNitroEmpty = False,
       isNitroEnabled = False, currentProgress = startOffset, currentLap = 1,
       lastProgressIndex = startOffset, isDrifting = False, isWallGrinding = False,
       wallContactSide = SideNone, damage = 0, trauma = 0, isWrecked = False,
       wreckTimer = 0 \<rparr>"

text \<open>Damage recovery and (for the player) trauma decay.\<close>

definition damageRecovery :: "CarProps \<Rightarrow> real \<Rightarrow> CarState \<Rightarrow> CarState" where
  "damageRecovery props dt st =
     (let st1 = (if damage st > 0 then st \<lparr> damage := max 0 (damage st - dt * 10) \<rparr> else st)
      in if isPlayer props then st1 \<lparr> trauma := max 0 (trauma st1 - dt * 3.0) \<rparr> else st1)"

text \<open>The wreck branch, which ends the frame.\<close>

definition wreckLogic :: "real \<Rightarrow> CarState \<Rightarrow> CarState" where
  "wreckLogic dt st =
     (let st1 = st \<lparr> wreckTimer := wreckTimer st - dt, speed := 0 \<rparr>
      in if wreckTimer st1 \<le> 0 then
           st1 \<lparr> isWrecked := False, damage := min 100 (damage st1 + 20) \<rparr>
         else st1)"

text \<open>Lap counting on the index the search found, then the two progress refs.\<close>

definition lapCounting :: "nat \<Rightarrow> int \<Rightarrow> CarState \<Rightarrow> CarState" where
  "lapCounting len best st =
     (let lap =
        (if real_of_int (lastProgressIndex st) > real len * 0.9 \<and> real_of_int best < real len * 0.1
           then currentLap st + 1
         else if real_of_int (lastProgressIndex st) < real len * 0.1
                 \<and> real_of_int best > real len * 0.9
           then currentLap st - 1
         else currentLap st)
      in st \<lparr> currentLap := lap, lastProgressIndex := best, currentProgress := best \<rparr>)"

text \<open>The \<open>input\<close> object: keyboard or virtual keys, gated by \<open>canMove\<close>; \<open>w\<close> is also
  set by \<open>autoGas\<close>.\<close>

definition virtualKey :: "(Keys \<Rightarrow> bool) \<Rightarrow> Keys option \<Rightarrow> bool" where
  "virtualKey k vk = (case vk of None \<Rightarrow> False | Some v \<Rightarrow> k v)"

definition frameInput :: "CarProps \<Rightarrow> CarFrame \<Rightarrow> Keys" where
  "frameInput props f =
     (let autoGas = (isPlayer props \<and> canMove f) in
      \<lparr> keyW = (autoGas \<or> ((keyW (keys f) \<or> virtualKey keyW (virtualKeys f)) \<and> canMove f)),
        keyA = ((keyA (keys f) \<or> virtualKey keyA (virtualKeys f)) \<and> canMove f),
        keyS = ((keyS (keys f) \<or> virtualKey keyS (virtualKeys f)) \<and> canMove f),
        keyD = ((keyD (keys f) \<or> virtualKey keyD (virtualKeys f)) \<and> canMove f),
        keySpace = ((keySpace (keys f) \<or> virtualKey keySpace (virtualKeys f)) \<and> canMove f),
        keyShift = ((keyShift (keys f) \<or> virtualKey keyShift (virtualKeys f)) \<and> canMove f) \<rparr>)"

definition currentMaxSpeed :: "CarProps \<Rightarrow> real" where
  "currentMaxSpeed props = statSpeed (stats props) * 1.6"

text \<open>The player's target speed before the nitro logic.\<close>

definition playerTargetS :: "CarProps \<Rightarrow> Keys \<Rightarrow> real" where
  "playerTargetS props inp =
     (if keyS inp then 0 else if keyW inp then currentMaxSpeed props else 0)"

text \<open>Draining the pending refill buffer into the reserve.\<close>

definition bufferDrain :: "real \<Rightarrow> CarState \<Rightarrow> CarState" where
  "bufferDrain dt st =
     (if nitroBuffer st > 0 then
        (let fillRate = (nitroBuffer st * 5.0 + 15.0) * dt;
             toFill = min (nitroBuffer st) fillRate;
             spaceLeft = 150 - nitroAmount st;
             actualFill = min toFill spaceLeft;
             st1 = st \<lparr> nitroAmount := nitroAmount st + actualFill,
                        nitroBuffer := nitroBuffer st - actualFill \<rparr>
         in if nitroAmount st1 \<ge> 150 then st1 \<lparr> nitroBuffer := 0 \<rparr> else st1)
      else st)"

text \<open>
  Clearing the empty flag, then consumption or regeneration.  The result is the target
  speed after the nitro logic and the new state.
\<close>

definition nitroLogic :: "real \<Rightarrow> bool \<Rightarrow> real \<Rightarrow> CarState \<Rightarrow> real \<times> CarState" where
  "nitroLogic dt shift targetS st =
     (let st1 = (if \<not> shift then st \<lparr> isNitroEmpty := False \<rparr> else st)
      in if shift \<and> nitroAmount st1 > 0 \<and> \<not> isNitroEmpty st1 then
           (let st2 = st1 \<lparr> isNitroEnabled := True, nitroAmount := nitroAmount st1 - dt * 30 \<rparr>
            in (targetS * 1.5,
                if nitroAmount st2 \<le> 0 then
                  st2 \<lparr> nitroAmount := 0, isNitroEmpty := True, isNitroEnabled := False \<rparr>
                else st2))
         else
           (targetS,
            st1 \<lparr> isNitroEnabled := False,
                  nitroAmount := min 150 (nitroAmount st1 + dt * 2.5) \<rparr>))"

text \<open>
  Target speed of the frame (the value of \<open>targetS\<close> before the damage penalty) and the
  state after the nitro logic: the player's branch, or the AI's.
\<close>

definition targetAndNitro :: "CarProps \<Rightarrow> CarFrame \<Rightarrow> CarState \<Rightarrow> real \<times> CarState" where
  "targetAndNitro props f st =
     (let inp = frameInput props f in
      if isPlayer props then
        nitroLogic (delta f) (keyShift inp) (playerTargetS props inp) (bufferDrain (delta f) st)
      else if canMove f then (currentMaxSpeed props * aggressiveness props, st)
      else (0, st))"

text \<open>The speed integration with its two step sizes.\<close>

definition timeToReachMax :: "real \<Rightarrow> real" where
  "timeToReachMax accel = (6.0 - (min 100 accel / 100.0) * 2.0) / 2.0"

definition integrateSpeed :: "real \<Rightarrow> real \<Rightarrow> real \<Rightarrow> real \<Rightarrow> real" where
  "integrateSpeed accel dt spd targetS =
     (let isDecelerating = (spd > targetS);
          accelStep = dt / timeToReachMax accel;
          decelStep = dt * 10.0;
          finalStep = (if isDecelerating then decelStep else accelStep)
      in damp spd targetS finalStep)"

text \<open>The response to the resolver's result.\<close>

definition collisionResponse :: "CollisionResult \<Rightarrow> CarState \<Rightarrow> CarState" where
  "collisionResponse c st =
     (if didCollide c then
        st \<lparr> speed := vlength (correctedVelocity c),
             isWallGrinding := True,
             wallContactSide := side c,
             damage := min 100 (damage st + 15),
             trauma := min 1.0 (trauma st + 0.3) \<rparr>
      else st \<lparr> isWallGrinding := False, wallContactSide := SideNone \<rparr>)"

text \<open>The frames the callback leaves at once.\<close>

definition skipped :: "CarFrame \<Rightarrow> bool" where
  "skipped f = (isPaused f \<or> \<not> mounted f \<or> delta f > 0.1)"

definition carFrame :: "CarProps \<Rightarrow> CarState \<Rightarrow> CarFrame \<Rightarrow> CarState" where
  "carFrame props st f =
     (if skipped f then st
      else
        (let st1 = damageRecovery props (delta f) st in
         if isWrecked st1 then wreckLogic (delta f) st1
         else
           (let st2 = lapCounting (trackLength props) (bestIdx f) st1;
                inp = frameInput props f;
                (targetS, st3) = targetAndNitro props f st2;
                st4 = st3 \<lparr> isDrifting := (keySpace inp \<and> speed st3 > 40) \<rparr>;
                damagePenalty = 1.0 - (damage st4 / 100) * 0.20;
                st5 = st4 \<lparr> speed := integrateSpeed (statAccel (stats props)) (delta f)
                                         (speed st4) (targetS * damagePenalty) \<rparr>
            in collisionResponse (collision f) st5)))"

text \<open>
  The value \<open>targetS\<close> has when the speed is integrated (after the nitro logic and the
  damage penalty), in a frame that is not skipped and for a car that is not wrecked, as
  a function of the state at the start of the frame.  \<open>unboostedTargetS\<close> is the same
  without the nitro logic's factor.
\<close>

definition frameTargetS :: "CarProps \<Rightarrow> CarState \<Rightarrow> CarFrame \<Rightarrow> real" where
  "frameTargetS props st f =
     (let st2 = lapCounting (trackLength props) (bestIdx f) (damageRecovery props (delta f) st);
          (targetS, st3) = targetAndNitro props f st2;
          damagePenalty = 1.0 - (damage st3 / 100) * 0.20
      in targetS * damagePenalty)"


text \<open>
  What happens to a car between its creation and the end of the race: frames, and (for
  the player) pickups, each of which adds 45 to the pending refill buffer.
\<close>

datatype CarEvent = Frame CarFrame | Pickup

fun carEvent :: "CarProps \<Rightarrow> CarState \<Rightarrow> CarEvent \<Rightarrow> CarState" where
  "carEvent props st (Frame f) = carFrame props st f"
| "carEvent props st Pickup = st \<lparr> nitroBuffer := nitroBuffer st + 45 \<rparr>"

definition carRun :: "CarProps \<Rightarrow> CarState \<Rightarrow> CarEvent list \<Rightarrow> CarState" where
  "carRun props st events = foldl (carEvent props) st events"

text \<open>Frame times are not negative.\<close>

fun timeForward :: "CarEvent \<Rightarrow> bool" where
  "timeForward (Frame f) = (0 \<le> delta f)"
| "timeForward Pickup = True"

section \<open>Invariants\<close>

text \<open>The bounds of the nitro reserve and of the damage.\<close>

definition bounded :: "CarState \<Rightarrow> bool" where
  "bounded st =
     (0 \<le> nitroAmount st \<and> nitroAmount st \<le> 150 \<and> 0 \<le> damage st \<and> damage st \<le> 100)"


section \<open>Inputs of the closed instances\<close>

text \<open>
  Concrete props and frames, used below to run the model: the fastest car of
  \<open>INITIAL_CARS\<close> as the player on the generated track, a frame in which the car is
  mounted, unpaused and allowed to move, with only the boost key possibly held, and two
  results of the resolver.
\<close>

definition playerProps :: CarProps where
  "playerProps =
     \<lparr> isPlayer = True,
       stats = \<lparr> statSpeed = 100, statAccel = 100, statHandling = 90 \<rparr>,
       aggressiveness = 1, trackLength = 1200 \<rparr>"

definition noCollision :: CollisionResult where
  "noCollision =
     \<lparr> didCollide = False, correctedPosition = Vector3 1200 2 0,
       correctedVelocity = Vector3 0 0 40, side = SideNone \<rparr>"

definition wallHit :: CollisionResult where
  "wallHit =
     \<lparr> didCollide = True, correctedPosition = Vector3 1228.95 2 0,
       correctedVelocity = Vector3 0 0 36, side = SideRight \<rparr>"

definition drivingFrame :: "real \<Rightarrow> int \<Rightarrow> bool \<Rightarrow> CollisionResult \<Rightarrow> CarFrame" where
  "drivingFrame dt idx boost c =
     \<lparr> isPaused = False, mounted = True, delta = dt, canMove = True,
       keys = \<lparr> keyW = False, keyA = False, keyS = False, keyD = False, keySpace = False,
                keyShift = boost \<rparr>,
       virtualKeys = None, bestIdx = idx, collision = c \<rparr>"

section \<open>Vector algebra\<close>



lemma vdot_vadd_left: "vdot (vadd a b) c = vdot a c + vdot b c"
  by (cases a; cases b; cases c) (simp add: algebra_simps)

lemma vdot_scale_left: "vdot (multiplyScalar a s) b = s * vdot a b"
  by (cases a; cases b) (simp add: algebra_simps)

lemma vdot_scale_right: "vdot a (multiplyScalar b s) = s * vdot a b"
  by (cases a; cases b) (simp add: algebra_simps)

lemma vdot_self_nonneg: "0 \<le> vdot a a"
  by (cases a) simp


lemma vdot_scale_sq: "vdot (multiplyScalar a s) (multiplyScalar a s) = s\<^sup>2 * vdot a a"
  by (cases a) (simp add: power2_eq_square algebra_simps)

lemma vdot_combination:
  "vdot (vadd (multiplyScalar a s) (multiplyScalar b t)) (vadd (multiplyScalar a s) (multiplyScalar b t))
     = s\<^sup>2 * vdot a a + 2 * s * t * vdot a b + t\<^sup>2 * vdot b b"
  by (cases a; cases b) (simp add: power2_eq_square algebra_simps)

text \<open>
  The tangential part \<open>v - (v \<cdot> n) n\<close> of a velocity, for a unit \<open>n\<close>: its square is
  \<open>|v|\<^sup>2 - (v \<cdot> n)\<^sup>2\<close> and it is orthogonal to \<open>n\<close>.
\<close>

lemma vdot_tangent_sq:
  assumes "vdot wn wn = 1"
  shows "vdot (vsub v (multiplyScalar wn (vdot v wn))) (vsub v (multiplyScalar wn (vdot v wn)))
       = vdot v v - (vdot v wn)\<^sup>2"
proof -
  have "vdot (vsub v (multiplyScalar wn (vdot v wn))) (vsub v (multiplyScalar wn (vdot v wn)))
      = vdot v v - 2 * (vdot v wn)\<^sup>2 + (vdot v wn)\<^sup>2 * vdot wn wn"
    by (cases v; cases wn) (simp add: power2_eq_square algebra_simps)
  then show ?thesis using assms by simp
qed

lemma vdot_tangent_normal:
  assumes "vdot wn wn = 1"
  shows "vdot wn (vsub v (multiplyScalar wn (vdot v wn))) = 0"
proof -
  have "vdot wn (vsub v (multiplyScalar wn (vdot v wn))) = vdot v wn - vdot v wn * vdot wn wn"
    by (cases v; cases wn) (simp add: algebra_simps)
  then show ?thesis using assms by simp
qed

section \<open>Properties of the collision resolver\<close>

subsection \<open>Position\<close>

text \<open>
  C2 (containment).  When the signed lateral offset \<open>x\<close> of the position satisfies
  \<open>|x| \<le> segment.width / 2 - carWidth / 2\<close>, the resolver reports no collision and
  returns the position and the velocity it was given, with side \<open>none\<close>.
\<close>

theorem resolveTrackCollision_containment:
  assumes "\<bar>distFromCenter pos segment\<bar> \<le> trackLimit segment carWidth"
  shows "resolveTrackCollision pos velocity segment carWidth =
     \<lparr> didCollide = False, correctedPosition = pos,
       correctedVelocity = velocity, side = SideNone \<rparr>"
  using assms by (simp add: resolveTrackCollision_def)

theorem resolveTrackCollision_containment_witness:
  "\<bar>distFromCenter (Vector3 1210 2 0)
      \<lparr> index = 0, position = Vector3 1200 0 0, rotation = Euler 0 0 0, width = 60,
        groundEmoji = (None :: nat GroundEmoji option), normal = Vector3 1 0 0,
        tangent = Vector3 0 0 1, theme = ''mist'' \<rparr>\<bar>
     \<le> trackLimit
      \<lparr> index = 0, position = Vector3 1200 0 0, rotation = Euler 0 0 0, width = 60,
        groundEmoji = (None :: nat GroundEmoji option), normal = Vector3 1 0 0,
        tangent = Vector3 0 0 1, theme = ''mist'' \<rparr> 2
   \<and> resolveTrackCollision (Vector3 1210 2 0) (Vector3 3 0 40)
      \<lparr> index = 0, position = Vector3 1200 0 0, rotation = Euler 0 0 0, width = 60,
        groundEmoji = (None :: nat GroundEmoji option), normal = Vector3 1 0 0,
        tangent = Vector3 0 0 1, theme = ''mist'' \<rparr> 2
     = \<lparr> didCollide = False, correctedPosition = Vector3 1210 2 0,
         correctedVelocity = Vector3 3 0 40, side = SideNone \<rparr>"
proof -
  have h: "\<bar>distFromCenter (Vector3 1210 2 0)
      \<lparr> index = 0, position = Vector3 1200 0 0, rotation = Euler 0 0 0, width = 60,
        groundEmoji = (None :: nat GroundEmoji option), normal = Vector3 1 0 0,
        tangent = Vector3 0 0 1, theme = ''mist'' \<rparr>\<bar>
     \<le> trackLimit
      \<lparr> index = 0, position = Vector3 1200 0 0, rotation = Euler 0 0 0, width = 60,
        groundEmoji = (None :: nat GroundEmoji option), normal = Vector3 1 0 0,
        tangent = Vector3 0 0 1, theme = ''mist'' \<rparr> 2"
    by (simp add: distFromCenter_def trackLimit_def)
  show ?thesis
    using h resolveTrackCollision_containment [OF h, of "Vector3 3 0 40"] by simp
qed





subsection \<open>Velocity\<close>

text \<open>
  The inward wall normal \<open>- sign * normal\<close>: it is the zero vector when the offset is 0
  (\<open>Math.sign 0 = 0\<close>) and has the length of the segment's normal otherwise.
\<close>

lemma wallNormal_sq:
  "vdot (multiplyScalar n (- math_sign d)) (multiplyScalar n (- math_sign d))
     = (if d = 0 then 0 else vdot n n)"
  by (simp add: vdot_scale_left vdot_scale_right math_sign_def)

lemma wallNormal_unit:
  assumes "vdot n n = 1"
  shows "vdot v (multiplyScalar n (- math_sign d)) < 0 \<longrightarrow>
         vdot (multiplyScalar n (- math_sign d)) (multiplyScalar n (- math_sign d)) = 1"
proof (cases "d = 0")
  case True
  then show ?thesis by (simp add: math_sign_def vdot_scale_right)
next
  case False
  then show ?thesis using assms by (simp add: wallNormal_sq)
qed




text \<open>
  The squared length of the velocity response is at most that of the input: with a unit
  wall normal the response is \<open>b n + 0.9 t\<close> or \<open>0.9 t\<close>, where \<open>t\<close> is the tangential
  part, orthogonal to \<open>n\<close>, and \<open>0 \<le> b \<le> 0.1 |v \<cdot> n|\<close>.
\<close>

lemma resolveVelocity_energy:
  assumes "vdot v wn < 0 \<longrightarrow> vdot wn wn = 1"
  shows "vdot (resolveVelocity v wn) (resolveVelocity v wn) \<le> vdot v v"
proof (cases "vdot v wn < 0")
  case False
  then show ?thesis by (simp add: resolveVelocity_def)
next
  case True
  with assms have unit: "vdot wn wn = 1" by simp
  define d where "d = vdot v wn"
  define vT where "vT = vsub v (multiplyScalar wn d)"
  define b where "b = min (- d * 0.1) (0.5::real)"
  have TT: "vdot vT vT = vdot v v - d\<^sup>2"
    unfolding vT_def d_def by (rule vdot_tangent_sq [OF unit])
  have NT: "vdot wn vT = 0"
    unfolding vT_def d_def by (rule vdot_tangent_normal [OF unit])
  have d_neg: "d < 0" using True by (simp add: d_def)
  have dd: "d\<^sup>2 \<le> vdot v v" using TT vdot_self_nonneg [of vT] by linarith
  have b_bounds: "0 \<le> b" "b \<le> - d * 0.1" using d_neg by (simp_all add: b_def)
  have "b\<^sup>2 \<le> (- d * 0.1)\<^sup>2" using b_bounds by (intro power_mono) auto
  then have bb: "b\<^sup>2 \<le> (1/100) * d\<^sup>2" by (simp add: power2_eq_square)
  have tangent_only: "vdot (multiplyScalar vT 0.9) (multiplyScalar vT 0.9) \<le> vdot v v"
  proof -
    have "vdot (multiplyScalar vT 0.9) (multiplyScalar vT 0.9) = (81/100) * (vdot v v - d\<^sup>2)"
      by (simp add: vdot_scale_sq TT power2_eq_square)
    also have "\<dots> \<le> vdot v v"
      using dd vdot_self_nonneg [of v] zero_le_power2 [of d] by argo
    finally show ?thesis .
  qed
  have bounce: "vdot (vadd (multiplyScalar wn b) (multiplyScalar vT 0.9))
                     (vadd (multiplyScalar wn b) (multiplyScalar vT 0.9)) \<le> vdot v v"
  proof -
    have "vdot (vadd (multiplyScalar wn b) (multiplyScalar vT 0.9))
               (vadd (multiplyScalar wn b) (multiplyScalar vT 0.9))
        = b\<^sup>2 + (81/100) * (vdot v v - d\<^sup>2)"
      by (simp add: vdot_combination unit NT TT power2_eq_square)
    also have "\<dots> \<le> vdot v v"
      using bb dd vdot_self_nonneg [of v] zero_le_power2 [of d] by argo
    finally show ?thesis .
  qed
  have rv: "resolveVelocity v wn =
      (if vdot (vadd (multiplyScalar wn b) (multiplyScalar vT 0.9)) v < 0
       then multiplyScalar vT 0.9
       else vadd (multiplyScalar wn b) (multiplyScalar vT 0.9))"
    using True unfolding resolveVelocity_def Let_def d_def vT_def b_def by simp
  show ?thesis
    unfolding rv using tangent_only bounce by simp
qed

text \<open>
  C10 (wall contact adds no kinetic energy).  For a segment whose normal has unit length,
  the Euclidean norm of the corrected velocity is at most the norm of the input velocity,
  whichever branch the resolver takes.
\<close>

theorem resolveTrackCollision_no_energy_gain:
  assumes unit: "vdot (normal segment) (normal segment) = 1"
  shows "vlength (correctedVelocity (resolveTrackCollision pos velocity segment carWidth))
       \<le> vlength velocity"
proof -
  have "vdot (correctedVelocity (resolveTrackCollision pos velocity segment carWidth))
             (correctedVelocity (resolveTrackCollision pos velocity segment carWidth))
      \<le> vdot velocity velocity"
    by (simp add: resolveTrackCollision_def Let_def resolveVelocity_energy
        wallNormal_unit [OF unit])
  then show ?thesis by (simp add: vlength_def)
qed

text \<open>
  A glancing hit of the right wall: the bounce-plus-friction branch turns the velocity
  \<open>(3, 0, 40)\<close> into \<open>(-0.3, 0, 36)\<close>.
\<close>

theorem resolveTrackCollision_no_energy_gain_witness:
  "vdot (Vector3 1 0 0) (Vector3 1 0 0) = 1
   \<and> correctedVelocity (resolveTrackCollision (Vector3 1231 2 0) (Vector3 3 0 40)
        \<lparr> index = 0, position = Vector3 1200 0 0, rotation = Euler 0 0 0, width = 60,
          groundEmoji = (None :: nat GroundEmoji option), normal = Vector3 1 0 0,
          tangent = Vector3 0 0 1, theme = ''mist'' \<rparr> 2) = Vector3 (- 0.3) 0 36
   \<and> vlength (Vector3 (- 0.3) 0 36) \<le> vlength (Vector3 3 0 40)"
proof -
  have eq: "correctedVelocity (resolveTrackCollision (Vector3 1231 2 0) (Vector3 3 0 40)
        \<lparr> index = 0, position = Vector3 1200 0 0, rotation = Euler 0 0 0, width = 60,
          groundEmoji = (None :: nat GroundEmoji option), normal = Vector3 1 0 0,
          tangent = Vector3 0 0 1, theme = ''mist'' \<rparr> 2) = Vector3 (- 0.3) 0 36"
    by (simp add: resolveTrackCollision_def resolveVelocity_def distFromCenter_def
        trackLimit_def math_sign_def Let_def)
  show ?thesis
    using resolveTrackCollision_no_energy_gain
      [of "\<lparr> index = 0, position = Vector3 1200 0 0, rotation = Euler 0 0 0, width = 60,
            groundEmoji = (None :: nat GroundEmoji option), normal = Vector3 1 0 0,
            tangent = Vector3 0 0 1, theme = ''mist'' \<rparr>" "Vector3 1231 2 0" "Vector3 3 0 40" 2]
    unfolding eq by simp
qed

section \<open>Properties of the track generator\<close>

text \<open>The stream of the closure created for seed 1 starts as the Lehmer generator's does.\<close>

lemma rng_seed_1:
  "fst (rng (fst (SEED_RANDOM 1 st)) (snd (SEED_RANDOM 1 st))) = 16806 / 2147483646"
  by (simp add: rng_def SEED_RANDOM_def js_rem_def Let_def)

text \<open>
  Two closures in two stores are in step when their cells hold the same number.  Calls of
  closures in step return the same number and leave them in step.
\<close>

lemma rng_in_step:
  assumes "h1 < length st1" "h2 < length st2" "st1 ! h1 = st2 ! h2"
  shows "fst (rng h1 st1) = fst (rng h2 st2)"
    and "h1 < length (snd (rng h1 st1))"
    and "h2 < length (snd (rng h2 st2))"
    and "snd (rng h1 st1) ! h1 = snd (rng h2 st2) ! h2"
  using assms by (simp_all add: rng_def Let_def)

lemma decoration_in_step:
  assumes "h1 < length st1" "h2 < length st2" "st1 ! h1 = st2 ! h2"
  shows "fst (decoration pool i h1 st1) = fst (decoration pool i h2 st2)"
    and "h1 < length (snd (decoration pool i h1 st1))"
    and "h2 < length (snd (decoration pool i h2 st2))"
    and "snd (decoration pool i h1 st1) ! h1 = snd (decoration pool i h2 st2) ! h2"
proof -
  note a = rng_in_step [OF assms]
  note b = rng_in_step [OF a(2-4)]
  note c = rng_in_step [OF b(2-4)]
  note d = rng_in_step [OF c(2-4)]
  note e = rng_in_step [OF d(2-4)]
  show "fst (decoration pool i h1 st1) = fst (decoration pool i h2 st2)"
    using a(1) b(1) c(1) d(1) e(1) by (simp add: decoration_def Let_def case_prod_beta)
  show "h1 < length (snd (decoration pool i h1 st1))"
    using assms(1) a(2) e(2) by (simp add: decoration_def Let_def case_prod_beta)
  show "h2 < length (snd (decoration pool i h2 st2))"
    using assms(2) a(3) e(3) by (simp add: decoration_def Let_def case_prod_beta)
  show "snd (decoration pool i h1 st1) ! h1 = snd (decoration pool i h2 st2) ! h2"
    using assms(3) a(1,4) e(4) by (simp add: decoration_def Let_def case_prod_beta)
qed

lemma makeSegment_in_step:
  assumes "h1 < length st1" "h2 < length st2" "st1 ! h1 = st2 ! h2"
  shows "fst (makeSegment euler pool pts i h1 st1) = fst (makeSegment euler pool pts i h2 st2)"
    and "h1 < length (snd (makeSegment euler pool pts i h1 st1))"
    and "h2 < length (snd (makeSegment euler pool pts i h2 st2))"
    and "snd (makeSegment euler pool pts i h1 st1) ! h1
           = snd (makeSegment euler pool pts i h2 st2) ! h2"
  using decoration_in_step [OF assms, of pool i]
  by (simp_all add: makeSegment_def Let_def case_prod_beta)

lemma buildSegments_in_step:
  assumes "h1 < length st1" "h2 < length st2" "st1 ! h1 = st2 ! h2"
  shows "fst (buildSegments euler pool pts ixs h1 st1)
           = fst (buildSegments euler pool pts ixs h2 st2)"
  using assms
proof (induction ixs arbitrary: st1 st2)
  case Nil
  then show ?case by simp
next
  case (Cons i rest)
  note m = makeSegment_in_step [OF Cons.prems, of euler pool pts i]
  have "fst (buildSegments euler pool pts rest h1 (snd (makeSegment euler pool pts i h1 st1)))
      = fst (buildSegments euler pool pts rest h2 (snd (makeSegment euler pool pts i h2 st2)))"
    using m(2-4) by (rule Cons.IH)
  then show ?case using m(1) by (simp add: Let_def case_prod_beta)
qed

text \<open>
  The segments a call returns do not depend on the store it runs in: the call creates
  its own closure, and only that closure's cell is read.
\<close>

lemma generateTrackPath_store:
  "fst (generateTrackPath euler pool seed st1) = fst (generateTrackPath euler pool seed st2)"
proof -
  have "fst (buildSegments euler pool trackPoints [0 ..< TOTAL_SEGMENTS]
               (length st1) (st1 @ [js_rem seed 2147483647]))
      = fst (buildSegments euler pool trackPoints [0 ..< TOTAL_SEGMENTS]
               (length st2) (st2 @ [js_rem seed 2147483647]))"
    by (rule buildSegments_in_step) simp_all
  then show ?thesis by (simp add: generateTrackPath_def SEED_RANDOM_def)
qed

text \<open>The second loop pushes one segment per index, in order.\<close>

lemma length_buildSegments:
  "length (fst (buildSegments euler pool pts ixs h st)) = length ixs"
  by (induction ixs arbitrary: st) (simp_all add: Let_def case_prod_beta)

lemma index_buildSegments:
  "k < length ixs \<Longrightarrow> index (fst (buildSegments euler pool pts ixs h st) ! k) = ixs ! k"
proof (induction ixs arbitrary: st k)
  case Nil
  then show ?case by simp
next
  case (Cons i rest)
  show ?case
  proof (cases k)
    case 0
    then show ?thesis by (simp add: Let_def makeSegment_def case_prod_beta)
  next
    case (Suc j)
    with Cons show ?thesis by (simp add: Let_def case_prod_beta)
  qed
qed

lemma length_generateTrackPath: "length (fst (generateTrackPath euler pool seed st)) = 1200"
  by (simp add: generateTrackPath_def SEED_RANDOM_def length_buildSegments TOTAL_SEGMENTS_def)

lemma index_generateTrackPath:
  "i < 1200 \<Longrightarrow> index (fst (generateTrackPath euler pool seed st) ! i) = i"
  by (simp add: generateTrackPath_def SEED_RANDOM_def index_buildSegments TOTAL_SEGMENTS_def)

text \<open>
  C1 (determinism).  Two calls of the generator with the same integer seed, in whatever
  stores they run (in particular one after the other), return sequences of the same
  length, 1200, that agree at every index in position, normal, tangent, rotation, width,
  theme and decoration marker.
\<close>

theorem generateTrackPath_deterministic:
  assumes "seed1 = seed2"
  shows "length (fst (generateTrackPath euler pool (of_int seed1) st1)) = 1200
       \<and> length (fst (generateTrackPath euler pool (of_int seed2) st2)) = 1200
       \<and> (\<forall>i < 1200.
            position (fst (generateTrackPath euler pool (of_int seed1) st1) ! i)
              = position (fst (generateTrackPath euler pool (of_int seed2) st2) ! i)
          \<and> normal (fst (generateTrackPath euler pool (of_int seed1) st1) ! i)
              = normal (fst (generateTrackPath euler pool (of_int seed2) st2) ! i)
          \<and> tangent (fst (generateTrackPath euler pool (of_int seed1) st1) ! i)
              = tangent (fst (generateTrackPath euler pool (of_int seed2) st2) ! i)
          \<and> rotation (fst (generateTrackPath euler pool (of_int seed1) st1) ! i)
              = rotation (fst (generateTrackPath euler pool (of_int seed2) st2) ! i)
          \<and> width (fst (generateTrackPath euler pool (of_int seed1) st1) ! i)
              = width (fst (generateTrackPath euler pool (of_int seed2) st2) ! i)
          \<and> theme (fst (generateTrackPath euler pool (of_int seed1) st1) ! i)
              = theme (fst (generateTrackPath euler pool (of_int seed2) st2) ! i)
          \<and> groundEmoji (fst (generateTrackPath euler pool (of_int seed1) st1) ! i)
              = groundEmoji (fst (generateTrackPath euler pool (of_int seed2) st2) ! i))"
proof -
  have "fst (generateTrackPath euler pool (of_int seed1) st1)
      = fst (generateTrackPath euler pool (of_int seed2) st2)"
    unfolding assms by (rule generateTrackPath_store)
  then show ?thesis by (simp add: length_generateTrackPath)
qed

text \<open>
  The second of two calls with seed 7, running in the store the first one left, returns
  what the first returned in the empty store.
\<close>

theorem generateTrackPath_deterministic_witness:
  "(7::int) = 7
   \<and> fst (generateTrackPath (\<lambda>n u t. Euler 0 0 0) [0::nat, 1, 2] (of_int 7)
         (snd (generateTrackPath (\<lambda>n u t. Euler 0 0 0) [0::nat, 1, 2] (of_int 7) [])))
     = fst (generateTrackPath (\<lambda>n u t. Euler 0 0 0) [0::nat, 1, 2] (of_int 7) [])"
proof -
  let ?first = "generateTrackPath (\<lambda>n u t. Euler 0 0 0) [0::nat, 1, 2] (of_int 7) []"
  let ?second = "generateTrackPath (\<lambda>n u t. Euler 0 0 0) [0::nat, 1, 2] (of_int 7) (snd ?first)"
  have h: "(7::int) = 7" by simp
  note T = generateTrackPath_deterministic
    [OF h, of "\<lambda>n u t. Euler 0 0 0" "[0::nat, 1, 2]" "snd ?first" "[]"]
  have len: "length (fst ?second) = length (fst ?first)" using T by simp
  have "fst ?second = fst ?first"
  proof (rule nth_equalityI [OF len])
    fix i assume "i < length (fst ?second)"
    then have i: "i < 1200" using T by simp
    have "index (fst ?second ! i) = index (fst ?first ! i)"
      using i by (simp add: index_generateTrackPath)
    moreover have "SegmentData.more (fst ?second ! i) = SegmentData.more (fst ?first ! i)"
      by simp
    ultimately show "fst ?second ! i = fst ?first ! i"
      using T i by (intro SegmentData.equality) simp_all
  qed
  then show ?thesis by simp
qed

subsection \<open>Unit normals\<close>

text \<open>
  The normal of a generated segment has unit length whenever the two neighbouring
  centreline points differ: the tangent is then a unit vector in the horizontal plane,
  and its cross product with the vertical is one as well.  This is the invariant of track
  segments that the resolver's velocity properties rely on.
\<close>

lemma vnormalize_unit:
  assumes "vdot v v \<noteq> 0"
  shows "vdot (vnormalize v) (vnormalize v) = 1"
proof -
  have pos: "0 < vdot v v" using assms vdot_self_nonneg [of v] by simp
  then have len: "vlength v \<noteq> 0" "(vlength v)\<^sup>2 = vdot v v"
    by (simp_all add: vlength_def)
  have "vdot (vnormalize v) (vnormalize v) = (1 / vlength v)\<^sup>2 * vdot v v"
    using len(1) by (simp add: vnormalize_def vdot_scale_sq)
  also have "\<dots> = vdot v v / (vlength v)\<^sup>2"
    by (simp add: power_divide)
  also have "\<dots> = 1" using len pos by simp
  finally show ?thesis .
qed

lemma vdot_zero_iff: "vdot v v = 0 \<longleftrightarrow> v = Vector3 0 0 0"
proof (cases v)
  case (Vector3 a b c)
  have "a * a + b * b + c * c = 0 \<longleftrightarrow> a = 0 \<and> b = 0 \<and> c = 0"
    by (metis add_nonneg_eq_0_iff mult_eq_0_iff zero_le_square add_nonneg_nonneg)
  then show ?thesis using Vector3 by simp
qed

lemma vsub_zero_iff: "vsub a b = Vector3 0 0 0 \<longleftrightarrow> a = b"
  by (cases a; cases b) simp

lemma vy_vnormalize: "vy v = 0 \<Longrightarrow> vy (vnormalize v) = 0"
  by (cases v) (simp add: vnormalize_def)

lemma cross_up_unit:
  assumes "vy t = 0" "vdot t t = 1"
  shows "vdot (vnormalize (crossVectors (Vector3 0 1 0) t))
              (vnormalize (crossVectors (Vector3 0 1 0) t)) = 1"
proof -
  have "vdot (crossVectors (Vector3 0 1 0) t) (crossVectors (Vector3 0 1 0) t) = 1"
    using assms by (cases t) (simp add: algebra_simps)
  then show ?thesis by (simp add: vnormalize_unit)
qed

lemma makeSegment_normal_unit:
  assumes "vy (pts ! ((i + 1) mod TOTAL_SEGMENTS)) = vy (pts ! ((i + TOTAL_SEGMENTS - 1) mod TOTAL_SEGMENTS))"
    and "pts ! ((i + 1) mod TOTAL_SEGMENTS) \<noteq> pts ! ((i + TOTAL_SEGMENTS - 1) mod TOTAL_SEGMENTS)"
  shows "vdot (normal (fst (makeSegment euler pool pts i h st)))
              (normal (fst (makeSegment euler pool pts i h st))) = 1"
proof -
  let ?d = "vsub (pts ! ((i + 1) mod TOTAL_SEGMENTS)) (pts ! ((i + TOTAL_SEGMENTS - 1) mod TOTAL_SEGMENTS))"
  have y: "vy ?d = 0" using assms(1)
    by (cases "pts ! ((i + 1) mod TOTAL_SEGMENTS)"; cases "pts ! ((i + TOTAL_SEGMENTS - 1) mod TOTAL_SEGMENTS)") simp
  have "?d \<noteq> Vector3 0 0 0" using assms(2) by (simp add: vsub_zero_iff)
  then have "vdot ?d ?d \<noteq> 0" by (simp add: vdot_zero_iff)
  then have u: "vdot (vnormalize ?d) (vnormalize ?d) = 1" by (rule vnormalize_unit)
  have "vy (vnormalize ?d) = 0" using y by (rule vy_vnormalize)
  then show ?thesis using u
    by (simp add: makeSegment_def Let_def case_prod_beta cross_up_unit)
qed


lemma nth_buildSegments:
  "k < length ixs \<Longrightarrow>
     \<exists>st'. fst (buildSegments euler pool pts ixs h st) ! k
             = fst (makeSegment euler pool pts (ixs ! k) h st')"
proof (induction ixs arbitrary: st k)
  case Nil
  then show ?case by simp
next
  case (Cons i rest)
  show ?case
  proof (cases k)
    case 0
    then show ?thesis by (auto simp add: Let_def case_prod_beta)
  next
    case (Suc j)
    with Cons.prems have "j < length rest" by simp
    from Cons.IH [OF this] Suc show ?thesis by (simp add: Let_def case_prod_beta)
  qed
qed

lemma vy_trackPoint: "vy (trackPoint j) = 0"
  by (simp add: trackPoint_def Let_def)

lemma nth_trackPoints: "j \<le> TOTAL_SEGMENTS \<Longrightarrow> trackPoints ! j = trackPoint j"
  unfolding trackPoints_def by (simp del: upt_Suc)

lemma generateTrackPath_normal_unit:
  assumes "i < 1200"
    and "trackPoint ((i + 1) mod 1200) \<noteq> trackPoint ((i + 1199) mod 1200)"
  shows "vdot (normal (fst (generateTrackPath euler pool seed st) ! i))
              (normal (fst (generateTrackPath euler pool seed st) ! i)) = 1"
proof -
  have a: "trackPoints ! ((i + 1) mod TOTAL_SEGMENTS) = trackPoint ((i + 1) mod 1200)"
    by (simp add: nth_trackPoints TOTAL_SEGMENTS_def)
  have b: "trackPoints ! ((i + TOTAL_SEGMENTS - 1) mod TOTAL_SEGMENTS) = trackPoint ((i + 1199) mod 1200)"
    by (simp add: nth_trackPoints TOTAL_SEGMENTS_def add.commute)
  obtain st' where "fst (generateTrackPath euler pool seed st) ! i
      = fst (makeSegment euler pool trackPoints i (length st) st')"
    using nth_buildSegments [of i "[0 ..< TOTAL_SEGMENTS]" euler pool trackPoints "length st"
        "st @ [js_rem seed 2147483647]"] assms(1)
    by (auto simp add: generateTrackPath_def SEED_RANDOM_def TOTAL_SEGMENTS_def)
  moreover have "vdot (normal (fst (makeSegment euler pool trackPoints i (length st) st')))
              (normal (fst (makeSegment euler pool trackPoints i (length st) st'))) = 1"
  proof (rule makeSegment_normal_unit)
    show "vy (trackPoints ! ((i + 1) mod TOTAL_SEGMENTS))
        = vy (trackPoints ! ((i + TOTAL_SEGMENTS - 1) mod TOTAL_SEGMENTS))"
      unfolding a b by (simp add: vy_trackPoint)
    show "trackPoints ! ((i + 1) mod TOTAL_SEGMENTS)
        \<noteq> trackPoints ! ((i + TOTAL_SEGMENTS - 1) mod TOTAL_SEGMENTS)"
      unfolding a b by (rule assms(2))
  qed
  ultimately show ?thesis by simp
qed

section \<open>Properties of the chase camera\<close>

text \<open>
  C9 (first-frame snap).  A camera that has not been initialised ignores the frames in
  which the target is absent; on the first frame with a target its position is exactly
  the ideal offset: the vector (0, 4.5, 5.5) turned by the target's quaternion and moved
  to the target's position.  The equation does not mention the camera's previous
  position, the frame time or the trauma: nothing is interpolated.
\<close>

theorem RacingCamera_first_update_snaps:
  assumes fresh: "\<not> isInit st"
    and waiting: "\<forall>f \<in> set pre. target f = None"
    and first: "target f = Some (carPos, carQuat)"
  shows "cameraPosition (cameraFrame applyQ (foldl (cameraFrame applyQ) st pre) f)
           = vadd (applyQ (Vector3 0 4.5 5.5) carQuat) carPos"
proof -
  have "foldl (cameraFrame applyQ) st pre = st"
    using waiting by (induction pre) (simp_all add: cameraFrame_def)
  then show ?thesis using fresh first
    by (simp add: cameraFrame_def idealOffset_def Let_def)
qed

text \<open>
  The canvas creates the camera at (0, 5, 10); the refs start at the origin.  After one
  frame without a target, the first frame with the car at (1200, 2, 0) and the identity
  rotation puts the camera at (1200, 6.5, 5.5), although trauma is positive.
\<close>

theorem RacingCamera_first_update_snaps_witness:
  "cameraPosition (cameraFrame (\<lambda>v (q::unit). v)
     (foldl (cameraFrame (\<lambda>v (q::unit). v))
        \<lparr> currentPosition = Vector3 0 0 0, currentLookAt = Vector3 0 0 0, isInit = False,
          cameraPosition = Vector3 0 5 10, cameraLookAt = Vector3 0 0 0, cameraFov = 75 \<rparr>
        [\<lparr> target = None, camDelta = 0.016, camSpeed = 0, camNitro = False,
           camTrauma = 0, shake = (0.1, 0.2, 0.3), isPerspective = True \<rparr>])
     \<lparr> target = Some (Vector3 1200 2 0, ()), camDelta = 0.016, camSpeed = 0,
       camNitro = False, camTrauma = 0.3, shake = (0.1, 0.2, 0.3), isPerspective = True \<rparr>)
   = Vector3 1200 6.5 5.5"
  using RacingCamera_first_update_snaps
    [of "\<lparr> currentPosition = Vector3 0 0 0, currentLookAt = Vector3 0 0 0, isInit = False,
           cameraPosition = Vector3 0 5 10, cameraLookAt = Vector3 0 0 0, cameraFov = 75 \<rparr>"
        "[\<lparr> target = None, camDelta = 0.016, camSpeed = 0, camNitro = False,
            camTrauma = 0, shake = (0.1, 0.2, 0.3), isPerspective = True \<rparr>]"
        "\<lparr> target = Some (Vector3 1200 2 0, ()), camDelta = 0.016, camSpeed = 0,
           camNitro = False, camTrauma = 0.3, shake = (0.1, 0.2, 0.3), isPerspective = True \<rparr>"
        "Vector3 1200 2 0" "()" "\<lambda>v (q::unit). v"]
  by simp

section \<open>Properties of the car's frame callback\<close>

text \<open>The definitions of the frame, for running it on concrete inputs.\<close>

lemmas car_defs = carRun_def carFrame_def skipped_def damageRecovery_def wreckLogic_def
  lapCounting_def frameInput_def virtualKey_def playerTargetS_def currentMaxSpeed_def
  bufferDrain_def nitroLogic_def targetAndNitro_def integrateSpeed_def timeToReachMax_def
  damp_def collisionResponse_def initialCarState_def playerProps_def drivingFrame_def
  noCollision_def wallHit_def Let_def

subsection \<open>What each part of the frame leaves alone\<close>

lemma damageRecovery_fields [simp]:
  "nitroAmount (damageRecovery props dt st) = nitroAmount st"
  "nitroBuffer (damageRecovery props dt st) = nitroBuffer st"
  "isNitroEmpty (damageRecovery props dt st) = isNitroEmpty st"
  "isWrecked (damageRecovery props dt st) = isWrecked st"
  "speed (damageRecovery props dt st) = speed st"
  "currentLap (damageRecovery props dt st) = currentLap st"
  "lastProgressIndex (damageRecovery props dt st) = lastProgressIndex st"
  by (simp_all add: damageRecovery_def Let_def)

lemma lapCounting_fields [simp]:
  "nitroAmount (lapCounting len best st) = nitroAmount st"
  "nitroBuffer (lapCounting len best st) = nitroBuffer st"
  "isNitroEmpty (lapCounting len best st) = isNitroEmpty st"
  "isWrecked (lapCounting len best st) = isWrecked st"
  "speed (lapCounting len best st) = speed st"
  "damage (lapCounting len best st) = damage st"
  "lastProgressIndex (lapCounting len best st) = best"
  by (simp_all add: lapCounting_def Let_def)

lemma bufferDrain_fields [simp]:
  "isNitroEmpty (bufferDrain dt st) = isNitroEmpty st"
  "isWrecked (bufferDrain dt st) = isWrecked st"
  "speed (bufferDrain dt st) = speed st"
  "damage (bufferDrain dt st) = damage st"
  "currentLap (bufferDrain dt st) = currentLap st"
  "lastProgressIndex (bufferDrain dt st) = lastProgressIndex st"
  by (simp_all add: bufferDrain_def Let_def)

lemma nitroLogic_fields [simp]:
  "isWrecked (snd (nitroLogic dt shift tS st)) = isWrecked st"
  "speed (snd (nitroLogic dt shift tS st)) = speed st"
  "damage (snd (nitroLogic dt shift tS st)) = damage st"
  "currentLap (snd (nitroLogic dt shift tS st)) = currentLap st"
  "lastProgressIndex (snd (nitroLogic dt shift tS st)) = lastProgressIndex st"
  by (simp_all add: nitroLogic_def Let_def)

lemma targetAndNitro_fields [simp]:
  "isWrecked (snd (targetAndNitro props f st)) = isWrecked st"
  "speed (snd (targetAndNitro props f st)) = speed st"
  "damage (snd (targetAndNitro props f st)) = damage st"
  "currentLap (snd (targetAndNitro props f st)) = currentLap st"
  "lastProgressIndex (snd (targetAndNitro props f st)) = lastProgressIndex st"
  by (simp_all add: targetAndNitro_def Let_def)

lemma collisionResponse_fields [simp]:
  "nitroAmount (collisionResponse c st) = nitroAmount st"
  "isNitroEmpty (collisionResponse c st) = isNitroEmpty st"
  "isWrecked (collisionResponse c st) = isWrecked st"
  "currentLap (collisionResponse c st) = currentLap st"
  "lastProgressIndex (collisionResponse c st) = lastProgressIndex st"
  by (simp_all add: collisionResponse_def)

lemma wreckLogic_fields [simp]:
  "nitroAmount (wreckLogic dt st) = nitroAmount st"
  "isNitroEmpty (wreckLogic dt st) = isNitroEmpty st"
  by (simp_all add: wreckLogic_def Let_def)

text \<open>
  The frame of a car that is not wrecked, when it is not skipped: the speed is integrated
  towards \<open>frameTargetS\<close>.
\<close>

lemma carFrame_running:
  assumes "\<not> skipped f" "\<not> isWrecked st"
  shows "carFrame props st f =
     (let st2 = lapCounting (trackLength props) (bestIdx f) (damageRecovery props (delta f) st);
          st3 = snd (targetAndNitro props f st2);
          st4 = st3 \<lparr> isDrifting := (keySpace (frameInput props f) \<and> speed st3 > 40) \<rparr>;
          st5 = st4 \<lparr> speed := integrateSpeed (statAccel (stats props)) (delta f)
                                         (speed st4) (frameTargetS props st f) \<rparr>
      in collisionResponse (collision f) st5)"
  using assms
  by (simp add: carFrame_def frameTargetS_def Let_def case_prod_beta)


lemma carRun_Cons: "carRun props st (e # es) = carRun props (carEvent props st e) es"
  by (simp add: carRun_def)

lemma carRun_Nil: "carRun props st [] = st"
  by (simp add: carRun_def)

subsection \<open>Bounded state\<close>

text \<open>Each part of the frame keeps nitro within [0, 150] and damage within [0, 100], when
  the frame time is not negative.\<close>

lemma bounded_damageRecovery: "0 \<le> dt \<Longrightarrow> bounded st \<Longrightarrow> bounded (damageRecovery props dt st)"
  by (auto simp: bounded_def damageRecovery_def Let_def)

lemma bounded_wreckLogic: "bounded st \<Longrightarrow> bounded (wreckLogic dt st)"
  by (auto simp: bounded_def wreckLogic_def Let_def)

lemma bounded_lapCounting: "bounded st \<Longrightarrow> bounded (lapCounting len best st)"
  by (simp add: bounded_def lapCounting_def Let_def)

lemma bounded_bufferDrain: 
  assumes "0 \<le> dt" "bounded st" shows "bounded (bufferDrain dt st)"
proof (cases "nitroBuffer st > 0")
  case False
  then show ?thesis using assms by (simp add: bufferDrain_def)
next
  case True
  define fill where "fill = min (min (nitroBuffer st) ((nitroBuffer st * 5.0 + 15.0) * dt)) (150 - nitroAmount st)"
  have "0 \<le> (nitroBuffer st * 5.0 + 15.0) * dt" using True assms(1) by simp
  then have "0 \<le> fill" "fill \<le> 150 - nitroAmount st" 
    using True assms(2) by (simp_all add: fill_def bounded_def)
  then show ?thesis using True assms(2) 
    unfolding bufferDrain_def Let_def fill_def[symmetric] bounded_def by auto
qed

lemma bounded_nitroLogic: 
  "0 \<le> dt \<Longrightarrow> bounded st \<Longrightarrow> bounded (snd (nitroLogic dt shift targetS st))"
  by (auto simp: bounded_def nitroLogic_def Let_def)

lemma bounded_targetAndNitro:
  "0 \<le> delta f \<Longrightarrow> bounded st \<Longrightarrow> bounded (snd (targetAndNitro props f st))"
  by (simp add: targetAndNitro_def Let_def bounded_nitroLogic bounded_bufferDrain)

lemma bounded_collisionResponse: "bounded st \<Longrightarrow> bounded (collisionResponse c st)"
  by (auto simp: bounded_def collisionResponse_def)

lemma bounded_update: "bounded st \<Longrightarrow> bounded (st\<lparr>speed := v\<rparr>)" "bounded st \<Longrightarrow> bounded (st\<lparr>isDrifting := b\<rparr>)"
  by (simp_all add: bounded_def)

lemma bounded_carFrame:
  assumes "0 \<le> delta f" "bounded st" shows "bounded (carFrame props st f)"
proof (cases "skipped f")
  case True then show ?thesis using assms by (simp add: carFrame_def)
next
  case False
  let ?st1 = "damageRecovery props (delta f) st"
  have b1: "bounded ?st1" using assms by (rule bounded_damageRecovery)
  show ?thesis
  proof (cases "isWrecked ?st1")
    case True
    then show ?thesis using False b1 by (simp add: carFrame_def Let_def bounded_wreckLogic)
  next
    case nw: False
    obtain tS st3 where eq: "targetAndNitro props f (lapCounting (trackLength props) (bestIdx f) ?st1) = (tS, st3)"
      by (cases "targetAndNitro props f (lapCounting (trackLength props) (bestIdx f) ?st1)")
    have "bounded (snd (targetAndNitro props f (lapCounting (trackLength props) (bestIdx f) ?st1)))"
      using assms(1) b1 by (intro bounded_targetAndNitro bounded_lapCounting)
    then have "bounded st3" by (simp add: eq)
    then show ?thesis using False nw eq
      by (simp add: carFrame_def Let_def bounded_collisionResponse bounded_update)
  qed
qed

lemma bounded_carEvent: "timeForward e \<Longrightarrow> bounded st \<Longrightarrow> bounded (carEvent props st e)"
  by (cases e) (simp_all add: bounded_carFrame, simp add: bounded_def)

lemma bounded_carRun: "\<forall>e \<in> set events. timeForward e \<Longrightarrow> bounded st \<Longrightarrow> bounded (carRun props st events)"
  unfolding carRun_def
  by (induction events arbitrary: st) (simp_all add: bounded_carEvent)

text \<open>
  C5 (bounded state).  From the initial state of a car, after every sequence of frames
  (with whatever keys, pause flags, nearest indices and collision results) and pickups,
  the nitro reserve is within [0, 150] and the damage within [0, 100].  The frame times
  are not negative, as the differences of a clock are.
\<close>

theorem carRun_bounded:
  assumes "\<forall>e \<in> set events. timeForward e"
  shows "0 \<le> nitroAmount (carRun props (initialCarState startOffset) events)
       \<and> nitroAmount (carRun props (initialCarState startOffset) events) \<le> 150
       \<and> 0 \<le> damage (carRun props (initialCarState startOffset) events)
       \<and> damage (carRun props (initialCarState startOffset) events) \<le> 100"
proof -
  have "bounded (initialCarState startOffset)"
    by (simp add: bounded_def initialCarState_def)
  with assms have "bounded (carRun props (initialCarState startOffset) events)"
    by (rule bounded_carRun)
  then show ?thesis by (simp add: bounded_def)
qed

text \<open>
  The player boosts into the wall for a frame of 0.1 s, collects a pickup and does it
  again: the reserve ends at 147 (the refill is cut at 150 and the rest of the buffer
  dropped) and the damage at 29.
\<close>

theorem carRun_bounded_witness:
  "nitroAmount (carRun playerProps (initialCarState 0)
      [Frame (drivingFrame 0.1 0 True wallHit), Pickup, Frame (drivingFrame 0.1 1 True wallHit)]) = 147
   \<and> damage (carRun playerProps (initialCarState 0)
      [Frame (drivingFrame 0.1 0 True wallHit), Pickup, Frame (drivingFrame 0.1 1 True wallHit)]) = 29
   \<and> 0 \<le> nitroAmount (carRun playerProps (initialCarState 0)
      [Frame (drivingFrame 0.1 0 True wallHit), Pickup, Frame (drivingFrame 0.1 1 True wallHit)])
   \<and> nitroAmount (carRun playerProps (initialCarState 0)
      [Frame (drivingFrame 0.1 0 True wallHit), Pickup, Frame (drivingFrame 0.1 1 True wallHit)]) \<le> 150
   \<and> 0 \<le> damage (carRun playerProps (initialCarState 0)
      [Frame (drivingFrame 0.1 0 True wallHit), Pickup, Frame (drivingFrame 0.1 1 True wallHit)])
   \<and> damage (carRun playerProps (initialCarState 0)
      [Frame (drivingFrame 0.1 0 True wallHit), Pickup, Frame (drivingFrame 0.1 1 True wallHit)]) \<le> 100"
proof -
  have h: "\<forall>e \<in> set [Frame (drivingFrame 0.1 0 True wallHit), Pickup,
                       Frame (drivingFrame 0.1 1 True wallHit)]. timeForward e"
    by (simp add: drivingFrame_def)
  have n: "nitroAmount (carRun playerProps (initialCarState 0)
      [Frame (drivingFrame 0.1 0 True wallHit), Pickup, Frame (drivingFrame 0.1 1 True wallHit)]) = 147"
    by (simp add: car_defs)
  have d: "damage (carRun playerProps (initialCarState 0)
      [Frame (drivingFrame 0.1 0 True wallHit), Pickup, Frame (drivingFrame 0.1 1 True wallHit)]) = 29"
    by (simp add: car_defs)
  show ?thesis using carRun_bounded [OF h, of playerProps 0] n d by simp
qed

subsection \<open>Nitro starvation\<close>









text \<open>Release and re-press.  The car never becomes wrecked by itself.\<close>

lemma isWrecked_carFrame: "\<not> isWrecked st \<Longrightarrow> \<not> isWrecked (carFrame props st f)"
  by (simp add: carFrame_def Let_def case_prod_beta)

lemma isWrecked_carRun: "\<not> isWrecked st \<Longrightarrow> \<not> isWrecked (carRun props st (map Frame fs))"
  by (induction fs arbitrary: st) (simp_all add: carRun_Nil carRun_Cons isWrecked_carFrame)







subsection \<open>Lap counting\<close>

lemma carFrame_lap:
  assumes "\<not> skipped f" "\<not> isWrecked st"
  shows "currentLap (carFrame props st f) = currentLap (lapCounting (trackLength props) (bestIdx f) st)"
    and "lastProgressIndex (carFrame props st f) = bestIdx f"
  using assms by (simp_all add: carFrame_def Let_def case_prod_beta lapCounting_def)

lemma lapCounting_lap:
  "currentLap (lapCounting len best st) =
     (if real_of_int (lastProgressIndex st) > real len * 0.9 \<and> real_of_int best < real len * 0.1
        then currentLap st + 1
      else if real_of_int (lastProgressIndex st) < real len * 0.1 \<and> real_of_int best > real len * 0.9
        then currentLap st - 1
      else currentLap st)"
  by (simp add: lapCounting_def Let_def)


text \<open>
  C7 (lap wrap).  On a track of 1200 segments, for a car that is not wrecked and four
  frames that are not skipped in which the search finds the indices 1198, 1199, 0 and 1:
  the lap counter after the second frame is what it was after the first, and after the
  third and after the fourth it is one more, so the counter goes up by exactly 1, at the
  frame where the index passes from above 90% of the length to below 10%.  In the other
  direction, a frame that finds an index above 90% of the length when the last index
  was below 10% takes one off the lap counter.
\<close>

theorem lap_wrap:
  assumes len: "trackLength props = 1200"
    and nw: "\<not> isWrecked st"
    and fr: "\<not> skipped f1" "\<not> skipped f2" "\<not> skipped f3" "\<not> skipped f4"
    and ix: "bestIdx f1 = 1198" "bestIdx f2 = 1199" "bestIdx f3 = 0" "bestIdx f4 = 1"
  shows "currentLap (carRun props st [Frame f1, Frame f2])
           = currentLap (carRun props st [Frame f1])
       \<and> currentLap (carRun props st [Frame f1, Frame f2, Frame f3])
           = currentLap (carRun props st [Frame f1]) + 1
       \<and> currentLap (carRun props st [Frame f1, Frame f2, Frame f3, Frame f4])
           = currentLap (carRun props st [Frame f1]) + 1
       \<and> (\<forall>s g. \<not> skipped g \<and> \<not> isWrecked s
              \<and> real_of_int (lastProgressIndex s) < real (trackLength props) * 0.1
              \<and> real_of_int (bestIdx g) > real (trackLength props) * 0.9
            \<longrightarrow> currentLap (carFrame props s g) = currentLap s - 1)"
proof -
  let ?s1 = "carFrame props st f1"
  let ?s2 = "carFrame props ?s1 f2"
  let ?s3 = "carFrame props ?s2 f3"
  let ?s4 = "carFrame props ?s3 f4"
  have w1: "\<not> isWrecked ?s1" using nw by (rule isWrecked_carFrame)
  have w2: "\<not> isWrecked ?s2" using w1 by (rule isWrecked_carFrame)
  have w3: "\<not> isWrecked ?s3" using w2 by (rule isWrecked_carFrame)
  have l1: "lastProgressIndex ?s1 = 1198" using fr(1) nw ix(1) by (simp add: carFrame_lap)
  have l2: "lastProgressIndex ?s2 = 1199" using fr(2) w1 ix(2) by (simp add: carFrame_lap)
  have l3: "lastProgressIndex ?s3 = 0" using fr(3) w2 ix(3) by (simp add: carFrame_lap)
  have c2: "currentLap ?s2 = currentLap ?s1"
    using fr(2) w1 by (simp add: carFrame_lap lapCounting_lap l1 ix len)
  have c3: "currentLap ?s3 = currentLap ?s2 + 1"
    using fr(3) w2 by (simp add: carFrame_lap lapCounting_lap l2 ix len)
  have c4: "currentLap ?s4 = currentLap ?s3"
    using fr(4) w3 by (simp add: carFrame_lap lapCounting_lap l3 ix len)
  have rev_wrap: "\<forall>s g. \<not> skipped g \<and> \<not> isWrecked s
              \<and> real_of_int (lastProgressIndex s) < real (trackLength props) * 0.1
              \<and> real_of_int (bestIdx g) > real (trackLength props) * 0.9
            \<longrightarrow> currentLap (carFrame props s g) = currentLap s - 1"
    by (auto simp add: carFrame_lap lapCounting_lap)
  show ?thesis using c2 c3 c4 rev_wrap by (simp add: carRun_def)
qed

text \<open>
  From grid position 1190 on lap 1: the lap is still 1 after the frame at index 1198 and
  2 after the frames at 1199, 0 and 1; a further frame back at index 1199 returns it to 1.
\<close>

theorem lap_wrap_witness:
  "currentLap (carRun playerProps (initialCarState 1190)
      [Frame (drivingFrame (1 / 60) 1198 False noCollision)]) = 1
   \<and> currentLap (carRun playerProps (initialCarState 1190)
      [Frame (drivingFrame (1 / 60) 1198 False noCollision),
       Frame (drivingFrame (1 / 60) 1199 False noCollision),
       Frame (drivingFrame (1 / 60) 0 False noCollision),
       Frame (drivingFrame (1 / 60) 1 False noCollision)]) = 2
   \<and> currentLap (carFrame playerProps
        (carRun playerProps (initialCarState 1190)
          [Frame (drivingFrame (1 / 60) 1198 False noCollision),
           Frame (drivingFrame (1 / 60) 1199 False noCollision),
           Frame (drivingFrame (1 / 60) 0 False noCollision),
           Frame (drivingFrame (1 / 60) 1 False noCollision)])
        (drivingFrame (1 / 60) 1199 False noCollision)) = 1"
proof -
  let ?st = "initialCarState 1190"
  let ?f1 = "drivingFrame (1 / 60) 1198 False noCollision"
  let ?f2 = "drivingFrame (1 / 60) 1199 False noCollision"
  let ?f3 = "drivingFrame (1 / 60) 0 False noCollision"
  let ?f4 = "drivingFrame (1 / 60) 1 False noCollision"
  have len: "trackLength playerProps = 1200" by (simp add: playerProps_def)
  have nw: "\<not> isWrecked ?st" by (simp add: initialCarState_def)
  have fr: "\<not> skipped ?f1" "\<not> skipped ?f2" "\<not> skipped ?f3" "\<not> skipped ?f4"
    by (simp_all add: skipped_def drivingFrame_def)
  have ix: "bestIdx ?f1 = 1198" "bestIdx ?f2 = 1199" "bestIdx ?f3 = 0" "bestIdx ?f4 = 1"
    by (simp_all add: drivingFrame_def)
  note T = lap_wrap [OF len nw fr ix]
  have "currentLap (carRun playerProps ?st [Frame ?f1])
      = currentLap (lapCounting (trackLength playerProps) (bestIdx ?f1) ?st)"
    using carFrame_lap(1) [OF fr(1) nw, of playerProps] by (simp add: carRun_def)
  also have "\<dots> = 1"
    by (simp add: lapCounting_lap initialCarState_def playerProps_def drivingFrame_def)
  finally have first: "currentLap (carRun playerProps ?st [Frame ?f1]) = 1" .
  from T first have four:
    "currentLap (carRun playerProps ?st [Frame ?f1, Frame ?f2, Frame ?f3, Frame ?f4]) = 2"
    by simp
  let ?s4 = "carRun playerProps ?st [Frame ?f1, Frame ?f2, Frame ?f3, Frame ?f4]"
  have w4: "\<not> isWrecked ?s4"
    using isWrecked_carRun [OF nw, of playerProps "[?f1, ?f2, ?f3, ?f4]"] by simp
  have l4: "lastProgressIndex ?s4 = 1"
    using w4 by (simp add: carRun_def carFrame_lap fr isWrecked_carFrame nw ix)
  from T have rev_wrap: "\<forall>s g. \<not> skipped g \<and> \<not> isWrecked s
              \<and> real_of_int (lastProgressIndex s) < real (trackLength playerProps) * 0.1
              \<and> real_of_int (bestIdx g) > real (trackLength playerProps) * 0.9
            \<longrightarrow> currentLap (carFrame playerProps s g) = currentLap s - 1"
    by blast
  have "currentLap (carFrame playerProps ?s4 ?f2) = currentLap ?s4 - 1"
    by (rule rev_wrap [rule_format]) (simp add: fr w4 l4 len ix)
  with four first show ?thesis by simp
qed

subsection \<open>Speed integration\<close>






end
